theory Spec2Isabelle
  imports Main
begin

section \<open>The host visual tree\<close>

text \<open>
  The block classes of the source work on the browser's DOM, which they reach through a
  handful of primitives: \<^verbatim>\<open>document.createTextNode\<close>, \<^verbatim>\<open>document.createElement\<close>,
  \<^verbatim>\<open>node.before\<close>, \<^verbatim>\<open>node.remove\<close>, \<^verbatim>\<open>node.replaceWith\<close>, \<^verbatim>\<open>parent.appendChild\<close>,
  \<^verbatim>\<open>node.cloneNode(true)\<close>, \<^verbatim>\<open>el.innerHTML = ...\<close>, \<^verbatim>\<open>el.getElementsByTagName\<close>,
  \<^verbatim>\<open>el.addEventListener\<close> and \<^verbatim>\<open>text.textContent\<close>.  The DOM is an explicit store here: a
  node is a natural number (its identity), and the store maps every identity to the node's
  fields.  New nodes take the next unused identity.
\<close>

record node =
  tag :: "string option"                \<comment> \<open>\<open>Some t\<close> for an element, \<open>None\<close> for a Text node\<close>
  textContent :: string                 \<comment> \<open>the character data of a Text node\<close>
  attrs :: "(string \<times> string) list"
  parent :: "nat option"
  childNodes :: "nat list"
  listeners :: "(string \<times> nat) list"    \<comment> \<open>event type and the handler index the closure captured\<close>

record dom =
  nodes :: "nat \<Rightarrow> node"
  next_id :: nat

definition blank :: node where
  "blank = \<lparr>tag = None, textContent = [], attrs = [], parent = None, childNodes = [],
            listeners = []\<rparr>"

definition empty_dom :: dom where
  "empty_dom = \<lparr>nodes = (\<lambda>_. blank), next_id = 0\<rparr>"

definition upd :: "nat \<Rightarrow> (node \<Rightarrow> node) \<Rightarrow> dom \<Rightarrow> dom" where
  "upd i f d = d\<lparr>nodes := (nodes d)(i := f (nodes d i))\<rparr>"

definition alloc :: "node \<Rightarrow> dom \<Rightarrow> nat \<times> dom" where
  "alloc n d = (next_id d, d\<lparr>nodes := (nodes d)(next_id d := n), next_id := Suc (next_id d)\<rparr>)"

definition createTextNode :: "string \<Rightarrow> dom \<Rightarrow> nat \<times> dom" where
  "createTextNode s d = alloc (blank\<lparr>textContent := s\<rparr>) d"

definition createElement :: "string \<Rightarrow> dom \<Rightarrow> nat \<times> dom" where
  "createElement t d = alloc (blank\<lparr>tag := Some t\<rparr>) d"

text \<open>\<^verbatim>\<open>n.remove()\<close>: a node without a parent is left alone.\<close>

definition remove_node :: "nat \<Rightarrow> dom \<Rightarrow> dom" where
  "remove_node n d =
     (case parent (nodes d n) of
        None \<Rightarrow> d
      | Some p \<Rightarrow>
          upd n (\<lambda>x. x\<lparr>parent := None\<rparr>)
            (upd p (\<lambda>x. x\<lparr>childNodes := removeAll n (childNodes x)\<rparr>) d))"

definition insert_before :: "nat \<Rightarrow> nat \<Rightarrow> nat list \<Rightarrow> nat list" where
  "insert_before a n xs = takeWhile (\<lambda>x. x \<noteq> a) xs @ n # dropWhile (\<lambda>x. x \<noteq> a) xs"

text \<open>
  \<^verbatim>\<open>a.before(n)\<close>: nothing happens when \<open>a\<close> has no parent; otherwise \<open>n\<close> leaves its old place and
  becomes the sibling just before \<open>a\<close>.  (The DOM refuses to insert an ancestor of \<open>a\<close>; the blocks
  only ever insert nodes they have created themselves, and that refusal is not part of the model.)
\<close>

definition before :: "nat \<Rightarrow> nat \<Rightarrow> dom \<Rightarrow> dom" where
  "before a n d =
     (case parent (nodes d a) of
        None \<Rightarrow> d
      | Some p \<Rightarrow>
          if n = a then d
          else upd n (\<lambda>x. x\<lparr>parent := Some p\<rparr>)
                 (upd p (\<lambda>x. x\<lparr>childNodes := insert_before a n (childNodes x)\<rparr>)
                    (remove_node n d)))"

text \<open>\<^verbatim>\<open>p.appendChild(n)\<close>.\<close>

definition appendChild :: "nat \<Rightarrow> nat \<Rightarrow> dom \<Rightarrow> dom" where
  "appendChild p n d =
     upd n (\<lambda>x. x\<lparr>parent := Some p\<rparr>)
       (upd p (\<lambda>x. x\<lparr>childNodes := childNodes x @ [n]\<rparr>) (remove_node n d))"

text \<open>\<^verbatim>\<open>old.replaceWith(new)\<close>: \<open>new\<close> takes the place of \<open>old\<close> under the parent of \<open>old\<close>.\<close>

definition replaceWith :: "nat \<Rightarrow> nat \<Rightarrow> dom \<Rightarrow> dom" where
  "replaceWith old new d =
     (case parent (nodes d old) of
        None \<Rightarrow> d
      | Some p \<Rightarrow>
          if new = old then d
          else upd new (\<lambda>x. x\<lparr>parent := Some p\<rparr>)
                 (upd old (\<lambda>x. x\<lparr>parent := None\<rparr>)
                    (upd p (\<lambda>x. x\<lparr>childNodes := map (\<lambda>c. if c = old then new else c) (childNodes x)\<rparr>)
                       (remove_node new d))))"

definition addEventListener :: "nat \<Rightarrow> string \<Rightarrow> nat \<Rightarrow> dom \<Rightarrow> dom" where
  "addEventListener n ev cb d = upd n (\<lambda>x. x\<lparr>listeners := listeners x @ [(ev, cb)]\<rparr>) d"

text \<open>
  A detached fragment as a value: what a static template holds and what the markup parser
  produces.  \<open>cloneNode\<close> copies such a fragment into the store, the root first and then its
  children from left to right, as \<^verbatim>\<open>cloneNode(true)\<close> and the parser behind \<^verbatim>\<open>innerHTML\<close> do.
\<close>

datatype tree = TElem string "(string \<times> string) list" "tree list" | TText string

fun cloneNode :: "tree \<Rightarrow> nat option \<Rightarrow> dom \<Rightarrow> nat \<times> dom"
  and cloneNodes :: "tree list \<Rightarrow> nat \<Rightarrow> dom \<Rightarrow> nat list \<times> dom" where
  "cloneNode (TText s) p d = alloc (blank\<lparr>textContent := s, parent := p\<rparr>) d"
| "cloneNode (TElem t as ts) p d =
     (case alloc (blank\<lparr>tag := Some t, attrs := as, parent := p\<rparr>) d of
        (r, d1) \<Rightarrow>
          (case cloneNodes ts r d1 of
             (ks, d2) \<Rightarrow> (r, upd r (\<lambda>x. x\<lparr>childNodes := ks\<rparr>) d2)))"
| "cloneNodes [] p d = ([], d)"
| "cloneNodes (t # ts) p d =
     (case cloneNode t (Some p) d of
        (k, d1) \<Rightarrow> (case cloneNodes ts p d1 of (ks, d2) \<Rightarrow> (k # ks, d2)))"

text \<open>
  The descendants of a node in document order.  The walk goes at most as deep as there are
  nodes in the store, which is every depth a tree in the store can have.
\<close>

fun descendants :: "nat \<Rightarrow> (nat \<Rightarrow> node) \<Rightarrow> nat \<Rightarrow> nat list" where
  "descendants 0 h r = []"
| "descendants (Suc f) h r = concat (map (\<lambda>c. c # descendants f h c) (childNodes (h r)))"

text \<open>\<^verbatim>\<open>el.getElementsByTagName(t)\<close>: a live view, so it is computed from the store at each use.\<close>

definition getElementsByTagName :: "nat \<Rightarrow> string \<Rightarrow> dom \<Rightarrow> nat list" where
  "getElementsByTagName r t d =
     filter (\<lambda>x. tag (nodes d x) = Some t) (descendants (next_id d) (nodes d) r)"

section \<open>Blocks\<close>

text \<open>Calling a method of, or reading a property of, \<^verbatim>\<open>null\<close> or \<^verbatim>\<open>undefined\<close>.\<close>

datatype error = TypeError

text \<open>
  \<^verbatim>\<open>Block.mount\<close>.  The abstract \<^verbatim>\<open>mountBefore\<close> of the receiver's class is the first argument.
\<close>

definition mount ::
  "('b \<Rightarrow> nat \<Rightarrow> dom \<Rightarrow> error + 'b \<times> dom) \<Rightarrow> 'b \<Rightarrow> nat \<Rightarrow> dom \<Rightarrow> error + 'b \<times> dom" where
  "mount mountBefore this par d =
     (case createTextNode [] d of
        (anchor, d1) \<Rightarrow>
          (case mountBefore this anchor (appendChild par anchor d1) of
             Inl e \<Rightarrow> Inl e
           | Inr (this', d2) \<Rightarrow> Inr (this', remove_node anchor d2)))"

subsection \<open>Text block\<close>

record btext =
  el_text :: nat

definition BText :: "string \<Rightarrow> dom \<Rightarrow> btext \<times> dom" where
  "BText text d = (case createTextNode text d of (e, d1) \<Rightarrow> (\<lparr>el_text = e\<rparr>, d1))"

definition mountBefore_text :: "btext \<Rightarrow> nat \<Rightarrow> dom \<Rightarrow> error + btext \<times> dom" where
  "mountBefore_text this anchor d = Inr (this, before anchor (el_text this) d)"

definition patch_text :: "btext \<Rightarrow> btext \<Rightarrow> dom \<Rightarrow> error + btext \<times> dom" where
  "patch_text this other d =
     Inr (this, upd (el_text this) (\<lambda>x. x\<lparr>textContent := textContent (nodes d (el_text other))\<rparr>) d)"

text \<open>\<^verbatim>\<open>BText\<close> does not override \<^verbatim>\<open>remove\<close>: it inherits the empty \<^verbatim>\<open>Block.remove\<close>.\<close>

definition remove_text :: "btext \<Rightarrow> dom \<Rightarrow> error + btext \<times> dom" where
  "remove_text this d = Inr (this, d)"

definition toString_text :: "btext \<Rightarrow> dom \<Rightarrow> string" where
  "toString_text this d = textContent (nodes d (el_text this))"

subsection \<open>Node block\<close>

text \<open>
  \<^verbatim>\<open>BNode\<close> is the base class of the blocks a compiled template produces.  A subclass supplies
  the static template \<^verbatim>\<open>el\<close> and may override the empty hooks \<^verbatim>\<open>update()\<close> and
  \<^verbatim>\<open>setupHandlers()\<close>; no subclass is part of the source.  The class of a block is therefore a
  parameter: its static template, and the handler indices its \<^verbatim>\<open>setupHandlers()\<close> passes to
  \<^verbatim>\<open>setupHandler(this.el, index)\<close> (none for \<^verbatim>\<open>BNode\<close> itself).  \<^verbatim>\<open>update()\<close> is the empty method
  of \<^verbatim>\<open>BNode\<close>.

  A handler is a pair of an event type and a thunk; thunks and the values in \<^verbatim>\<open>data\<close> are opaque
  to the blocks and are named by a number and a string.  An array whose slots may be
  \<^verbatim>\<open>null\<close>, \<^verbatim>\<open>undefined\<close> or empty is a list of options.
\<close>

record node_class =
  static_el :: tree
  handler_sites :: "nat list"

datatype bnode =
  BNode (cls: node_class) (el: "nat option") (children: "bnode option list option")
    (anchors: "nat option list option") (data: "string list option")
    (handlers: "(string \<times> nat) list option")

definition js_nth :: "'a option list \<Rightarrow> nat \<Rightarrow> 'a option" where
  "js_nth xs i = (if i < length xs then xs ! i else None)"

definition js_set :: "'a option list \<Rightarrow> nat \<Rightarrow> 'a option \<Rightarrow> 'a option list" where
  "js_set xs i v = (if i < length xs then xs[i := v] else xs @ replicate (i - length xs) None @ [v])"

function build_anchors :: "nat \<Rightarrow> nat \<Rightarrow> nat option list \<Rightarrow> dom \<Rightarrow> error + nat option list \<times> dom" where
  "build_anchors e i arr d =
     (if i < length arr then
        (case createTextNode [] d of
           (text, d1) \<Rightarrow>
             (case getElementsByTagName e ''owl-anchor'' d1 of
                [] \<Rightarrow> Inl TypeError
              | p # _ \<Rightarrow> build_anchors e (Suc i) (arr[i := Some text]) (replaceWith p text d1)))
      else Inr (arr, d))"
  by pat_completeness auto
termination
  by (relation "measure (\<lambda>(e, i, arr, d). length arr - i)") auto

definition setupHandler :: "bnode \<Rightarrow> nat \<Rightarrow> nat \<Rightarrow> dom \<Rightarrow> error + dom" where
  "setupHandler this e index d =
     (case handlers this of
        None \<Rightarrow> Inl TypeError
      | Some hs \<Rightarrow>
          if index < length hs then Inr (addEventListener e (fst (hs ! index)) index d)
          else Inl TypeError)"

fun setupHandlers :: "bnode \<Rightarrow> nat \<Rightarrow> nat list \<Rightarrow> dom \<Rightarrow> error + dom" where
  "setupHandlers this e [] d = Inr d"
| "setupHandlers this e (index # rest) d =
     (case setupHandler this e index d of
        Inl err \<Rightarrow> Inl err
      | Inr d1 \<Rightarrow> setupHandlers this e rest d1)"

definition build :: "bnode \<Rightarrow> dom \<Rightarrow> error + bnode \<times> dom" where
  "build this d =
     (case this of BNode c _ ch an da ha \<Rightarrow>
        (case cloneNode (static_el c) None d of
           (e, d1) \<Rightarrow>
             (case (case ch of
                      None \<Rightarrow> Inr (an, d1)
                    | Some _ \<Rightarrow>
                        if tag (nodes d1 e) = None then Inl TypeError
                        else
                          (case build_anchors e 0
                                  (replicate (length (getElementsByTagName e ''owl-anchor'' d1)) None) d1 of
                             Inl err \<Rightarrow> Inl err
                           | Inr (arr, d2) \<Rightarrow> Inr (Some arr, d2))) of
                Inl err \<Rightarrow> Inl err
              | Inr (an', d2) \<Rightarrow>
                  (case ha of
                     None \<Rightarrow> Inr (BNode c (Some e) ch an' da ha, d2)
                   | Some _ \<Rightarrow>
                       (case setupHandlers (BNode c (Some e) ch an' da ha) e (handler_sites c) d2 of
                          Inl err \<Rightarrow> Inl err
                        | Inr d3 \<Rightarrow> Inr (BNode c (Some e) ch an' da ha, d3))))))"

lemma build_children: "build this d = Inr (this', d') \<Longrightarrow> children this' = children this"
  by (auto simp: build_def split: bnode.splits prod.splits sum.splits option.splits if_splits)

lemma size_nth_drop:
  "i < length xs \<Longrightarrow> xs ! i = Some (c::bnode) \<Longrightarrow> size c < size_list (size_option size) (drop i xs)"
  by (induction xs arbitrary: i) (auto simp: nth_Cons drop_Cons' split: nat.splits)

lemma size_drop_Suc:
  "i < length xs \<Longrightarrow> size_list f (drop (Suc i) xs) < size_list f (drop i xs)"
  by (simp flip: Cons_nth_drop_Suc)

lemma size_drop_Suc_le:
  "size_list f (drop (Suc i) xs) \<le> size_list f (drop i xs)"
  using size_drop_Suc[of i xs f] by (cases "i < length xs") simp_all

function mountBefore :: "bnode \<Rightarrow> nat \<Rightarrow> dom \<Rightarrow> error + bnode \<times> dom"
  and mount_children ::
    "nat \<Rightarrow> bnode option list \<Rightarrow> nat option list option \<Rightarrow> dom \<Rightarrow> error + bnode option list \<times> dom"
where
  "mountBefore this anchor d =
     (case build this d of
        Inl err \<Rightarrow> Inl err
      | Inr (this1, d1) \<Rightarrow>
          (case this1 of BNode c e ch an da ha \<Rightarrow>
             (case (case ch of
                      None \<Rightarrow> Inr (None, d1)
                    | Some cs \<Rightarrow>
                        (case mount_children 0 cs an d1 of
                           Inl err \<Rightarrow> Inl err
                         | Inr (cs', d2) \<Rightarrow> Inr (Some cs', d2))) of
                Inl err \<Rightarrow> Inl err
              | Inr (ch', d2) \<Rightarrow>
                  (case e of
                     None \<Rightarrow> Inl TypeError
                   | Some root \<Rightarrow> Inr (BNode c e ch' an da ha, before anchor root d2)))))"
| "mount_children i cs an d =
     (if i < length cs then
        (case cs ! i of
           None \<Rightarrow> mount_children (Suc i) cs an d
         | Some child \<Rightarrow>
             (case an of
                None \<Rightarrow> Inl TypeError
              | Some as \<Rightarrow>
                  (case js_nth as i of
                     None \<Rightarrow> Inl TypeError
                   | Some anchor \<Rightarrow>
                       (case mountBefore child anchor d of
                          Inl err \<Rightarrow> Inl err
                        | Inr (child', d1) \<Rightarrow> mount_children (Suc i) (cs[i := Some child']) an d1))))
      else Inr (cs, d))"
  by pat_completeness auto
termination
  apply (relation "measure (\<lambda>x. case x of
            Inl (this, anchor, d) \<Rightarrow> size this
          | Inr (i, cs, an, d) \<Rightarrow> size_list (size_option size) (drop i cs))")
  apply simp
  subgoal for this anchor d x2 this1 d1 c e ch an da ha cs
    using build_children[of this d this1 d1] by (cases this) auto
  subgoal by (simp add: size_drop_Suc)
  subgoal by (simp add: size_nth_drop)
  subgoal by (simp add: size_drop_Suc)
  done


definition remove_bnode :: "bnode \<Rightarrow> dom \<Rightarrow> error + bnode \<times> dom" where
  "remove_bnode this d =
     (case el this of
        None \<Rightarrow> Inl TypeError
      | Some root \<Rightarrow> Inr (this, remove_node root d))"

lemma size_drop_Suc_js_set:
  "size_list f (drop (Suc i) (js_set xs i v)) \<le> size_list f (drop i xs)"
proof (cases "i < length xs")
  case True
  then show ?thesis using size_drop_Suc[of i xs f] by (simp add: js_set_def)
next
  case False
  then show ?thesis by (simp add: js_set_def)
qed

lemma patch_step_decr:
  "i < length ns \<Longrightarrow>
   size_list f (drop (Suc i) (js_set cs i v)) + size_list f (drop (Suc i) ns)
     < size_list f (drop i cs) + size_list f (drop i ns)"
  using size_drop_Suc_js_set[of f i cs v] size_drop_Suc[of i ns f] by simp

lemma patch_skip_decr:
  "i < length ns \<Longrightarrow>
   size_list f (drop (Suc i) cs) + size_list f (drop (Suc i) ns)
     < size_list f (drop i cs) + size_list f (drop i ns)"
  using size_drop_Suc_le[of f i cs] size_drop_Suc[of i ns f] by simp

lemma patch_child_decr:
  "js_nth cs i = Some (child::bnode) \<Longrightarrow> i < length ns \<Longrightarrow> ns ! i = Some (newChild::bnode) \<Longrightarrow>
   size child + size newChild
     < size_list (size_option size) (drop i cs) + size_list (size_option size) (drop i ns)"
  using size_nth_drop[of i cs child] size_nth_drop[of i ns newChild]
  by (simp add: js_nth_def split: if_splits)

lemma size_children:
  "children t = Some xs \<Longrightarrow> size_list (size_option size) xs < size t"
  by (cases t) auto

function patch :: "bnode \<Rightarrow> bnode \<Rightarrow> dom \<Rightarrow> error + bnode \<times> dom"
  and patch_children ::
    "nat \<Rightarrow> bnode option list \<Rightarrow> bnode option list \<Rightarrow> nat option list option \<Rightarrow> dom
       \<Rightarrow> error + bnode option list \<times> dom"
where
  "patch (BNode c e ch an da ha) newTree d =
     (case ch of
        None \<Rightarrow> Inr (BNode c e ch an (data newTree) ha, d)
      | Some cs \<Rightarrow>
          (case children newTree of
             None \<Rightarrow> Inl TypeError
           | Some newChildren \<Rightarrow>
               (case patch_children 0 cs newChildren an d of
                  Inl err \<Rightarrow> Inl err
                | Inr (cs', d1) \<Rightarrow> Inr (BNode c e (Some cs') an (data newTree) ha, d1))))"
| "patch_children i cs newChildren an d =
     (if i < length newChildren then
        (case js_nth cs i of
           Some child \<Rightarrow>
             (case newChildren ! i of
                Some newChild \<Rightarrow>
                  (case patch child newChild d of
                     Inl err \<Rightarrow> Inl err
                   | Inr (child', d1) \<Rightarrow>
                       patch_children (Suc i) (js_set cs i (Some child')) newChildren an d1)
              | None \<Rightarrow>
                  (case remove_bnode child d of
                     Inl err \<Rightarrow> Inl err
                   | Inr (_, d1) \<Rightarrow> patch_children (Suc i) (js_set cs i None) newChildren an d1))
         | None \<Rightarrow>
             (case newChildren ! i of
                Some newChild \<Rightarrow>
                  (case an of
                     None \<Rightarrow> Inl TypeError
                   | Some as \<Rightarrow>
                       (case js_nth as i of
                          None \<Rightarrow> Inl TypeError
                        | Some anchor \<Rightarrow>
                            (case mountBefore newChild anchor d of
                               Inl err \<Rightarrow> Inl err
                             | Inr (newChild', d1) \<Rightarrow>
                                 patch_children (Suc i) (js_set cs i (Some newChild')) newChildren an d1)))
              | None \<Rightarrow> patch_children (Suc i) cs newChildren an d))
      else Inr (cs, d))"
  by pat_completeness auto
termination
  apply (relation "measure (\<lambda>x. case x of
            Inl (this, newTree, d) \<Rightarrow> size this + size newTree
          | Inr (i, cs, newChildren, an, d) \<Rightarrow>
              size_list (size_option size) (drop i cs) + size_list (size_option size) (drop i newChildren))")
  apply (simp_all add: patch_step_decr patch_skip_decr patch_child_decr)
  apply (auto dest: size_children)
  done

subsection \<open>Multi block\<close>

text \<open>
  The inherited field \<^verbatim>\<open>el\<close> of a Multi block and of a Collection block is never written and
  stays \<^verbatim>\<open>null\<close>; the model leaves it out.  The fields of the classes after \<^verbatim>\<open>BNode\<close> carry the
  class in their name.
\<close>

record bmulti =
  children_multi :: "bnode option list"
  anchors_multi :: "nat option list"

definition BMulti :: "nat \<Rightarrow> bmulti" where
  "BMulti n = \<lparr>children_multi = replicate n None, anchors_multi = replicate n None\<rparr>"

function mountBefore_multi_loop :: "nat \<Rightarrow> bmulti \<Rightarrow> nat \<Rightarrow> dom \<Rightarrow> error + bmulti \<times> dom" where
  "mountBefore_multi_loop i this anchor d =
     (if i < length (children_multi this) then
        (case createTextNode [] d of
           (childAnchor, d1) \<Rightarrow>
             (let d2 = before anchor childAnchor d1;
                  this1 = this\<lparr>anchors_multi := js_set (anchors_multi this) i (Some childAnchor)\<rparr>
              in case children_multi this ! i of
                   None \<Rightarrow> mountBefore_multi_loop (Suc i) this1 anchor d2
                 | Some child \<Rightarrow>
                     (case mountBefore child childAnchor d2 of
                        Inl err \<Rightarrow> Inl err
                      | Inr (child', d3) \<Rightarrow>
                          mountBefore_multi_loop (Suc i)
                            (this1\<lparr>children_multi := (children_multi this1)[i := Some child']\<rparr>)
                            anchor d3)))
      else Inr (this, d))"
  by pat_completeness auto
termination
  by (relation "measure (\<lambda>(i, this, anchor, d). length (children_multi this) - i)") auto

definition mountBefore_multi :: "bmulti \<Rightarrow> nat \<Rightarrow> dom \<Rightarrow> error + bmulti \<times> dom" where
  "mountBefore_multi this anchor d = mountBefore_multi_loop 0 this anchor d"

text \<open>
  \<^verbatim>\<open>BMulti.patch\<close>.  In the branch that drops a child the source writes
  \<^verbatim>\<open>this.children[0] = null\<close>, with the index \<open>0\<close>.
\<close>

function patch_multi_loop :: "nat \<Rightarrow> bmulti \<Rightarrow> bmulti \<Rightarrow> dom \<Rightarrow> error + bmulti \<times> dom" where
  "patch_multi_loop i this newTree d =
     (if i < length (children_multi this) then
        (case children_multi this ! i of
           Some block \<Rightarrow>
             (case js_nth (children_multi newTree) i of
                Some newBlock \<Rightarrow>
                  (case patch block newBlock d of
                     Inl err \<Rightarrow> Inl err
                   | Inr (block', d1) \<Rightarrow>
                       patch_multi_loop (Suc i)
                         (this\<lparr>children_multi := (children_multi this)[i := Some block']\<rparr>) newTree d1)
              | None \<Rightarrow>
                  (case remove_bnode block d of
                     Inl err \<Rightarrow> Inl err
                   | Inr (_, d1) \<Rightarrow>
                       patch_multi_loop (Suc i)
                         (this\<lparr>children_multi := (children_multi this)[0 := None]\<rparr>) newTree d1))
         | None \<Rightarrow>
             (case js_nth (children_multi newTree) i of
                Some newBlock \<Rightarrow>
                  (case js_nth (anchors_multi this) i of
                     None \<Rightarrow> Inl TypeError
                   | Some anchor \<Rightarrow>
                       (case mountBefore newBlock anchor d of
                          Inl err \<Rightarrow> Inl err
                        | Inr (newBlock', d1) \<Rightarrow>
                            patch_multi_loop (Suc i)
                              (this\<lparr>children_multi := (children_multi this)[i := Some newBlock']\<rparr>)
                              newTree d1))
              | None \<Rightarrow> patch_multi_loop (Suc i) this newTree d))
      else Inr (this, d))"
  by pat_completeness auto
termination
  by (relation "measure (\<lambda>(i, this, newTree, d). length (children_multi this) - i)") auto

definition patch_multi :: "bmulti \<Rightarrow> bmulti \<Rightarrow> dom \<Rightarrow> error + bmulti \<times> dom" where
  "patch_multi this newTree d = patch_multi_loop 0 this newTree d"

function remove_multi_loop :: "nat \<Rightarrow> bmulti \<Rightarrow> dom \<Rightarrow> error + bmulti \<times> dom" where
  "remove_multi_loop i this d =
     (if i < length (children_multi this) then
        (case children_multi this ! i of
           None \<Rightarrow> Inl TypeError
         | Some child \<Rightarrow>
             (case remove_bnode child d of
                Inl err \<Rightarrow> Inl err
              | Inr (_, d1) \<Rightarrow>
                  (case js_nth (anchors_multi this) i of
                     None \<Rightarrow> Inl TypeError
                   | Some a \<Rightarrow> remove_multi_loop (Suc i) this (remove_node a d1))))
      else Inr (this, d))"
  by pat_completeness auto
termination
  by (relation "measure (\<lambda>(i, this, d). length (children_multi this) - i)") auto

definition remove_multi :: "bmulti \<Rightarrow> dom \<Rightarrow> error + bmulti \<times> dom" where
  "remove_multi this d = remove_multi_loop 0 this d"

subsection \<open>Html block\<close>

text \<open>
  The markup parser behind \<^verbatim>\<open>innerHTML\<close> belongs to the host.  It is the parameter \<open>parse\<close>, from a
  markup string to the fragments it stands for.
\<close>

record bhtml =
  html :: string
  content :: "nat list"
  anchor_html :: nat
  el_html :: "nat option"

definition BHtml :: "string \<Rightarrow> dom \<Rightarrow> bhtml \<times> dom" where
  "BHtml h d =
     (case createTextNode [] d of
        (a, d1) \<Rightarrow> (\<lparr>html = h, content = [], anchor_html = a, el_html = None\<rparr>, d1))"

definition build_html :: "(string \<Rightarrow> tree list) \<Rightarrow> bhtml \<Rightarrow> dom \<Rightarrow> bhtml \<times> dom" where
  "build_html parse this d =
     (case createElement ''div'' d of
        (div_el, d1) \<Rightarrow>
          (case cloneNodes (parse (html this)) div_el d1 of
             (ks, d2) \<Rightarrow>
               (this\<lparr>content := ks, el_html := (case ks of [] \<Rightarrow> None | k # _ \<Rightarrow> Some k)\<rparr>,
                upd div_el (\<lambda>x. x\<lparr>childNodes := ks\<rparr>) d2)))"

definition mountBefore_html ::
  "(string \<Rightarrow> tree list) \<Rightarrow> bhtml \<Rightarrow> nat \<Rightarrow> dom \<Rightarrow> error + bhtml \<times> dom" where
  "mountBefore_html parse this anchor d =
     (case build_html parse this d of
        (this1, d1) \<Rightarrow>
          Inr (this1,
               fold (\<lambda>elem. before (anchor_html this1) elem) (content this1)
                 (before anchor (anchor_html this1) d1)))"

definition remove_html :: "bhtml \<Rightarrow> dom \<Rightarrow> error + bhtml \<times> dom" where
  "remove_html this d =
     Inr (this, remove_node (anchor_html this) (fold remove_node (content this) d))"

text \<open>\<^verbatim>\<open>BHtml.patch(other)\<close>: the body of the source never reads \<^verbatim>\<open>other\<close>.\<close>

definition patch_html ::
  "(string \<Rightarrow> tree list) \<Rightarrow> bhtml \<Rightarrow> bhtml \<Rightarrow> dom \<Rightarrow> error + bhtml \<times> dom" where
  "patch_html parse this other d =
     (case build_html parse this (fold remove_node (content this) d) of
        (this1, d1) \<Rightarrow>
          Inr (this1, fold (\<lambda>elem. before (anchor_html this1) elem) (content this1) d1))"

definition toString_html :: "bhtml \<Rightarrow> string" where
  "toString_html this = html this"

subsection \<open>Collection block and the variants together\<close>

datatype block =
  Html bhtml | Text btext | Node bnode | Multi bmulti
| Collection (children_coll: "block option list") (anchor_coll: "nat option")

definition BCollection :: "nat \<Rightarrow> block" where
  "BCollection n = Collection (replicate n None) None"

text \<open>
  \<^verbatim>\<open>mountBefore\<close> on a value of type \<^verbatim>\<open>Block\<close>: the method of the value's class.  The
  \<^verbatim>\<open>for ... of\<close> loop of \<^verbatim>\<open>BCollection.mountBefore\<close> visits the slots of the array in order, and
  calling \<^verbatim>\<open>mountBefore\<close> on an empty slot is a \<^verbatim>\<open>TypeError\<close>.
\<close>

fun mountBefore_block ::
    "(string \<Rightarrow> tree list) \<Rightarrow> block \<Rightarrow> nat \<Rightarrow> dom \<Rightarrow> error + block \<times> dom"
  and mountBefore_each ::
    "(string \<Rightarrow> tree list) \<Rightarrow> block option list \<Rightarrow> nat \<Rightarrow> dom \<Rightarrow> error + block option list \<times> dom"
where
  "mountBefore_block parse (Html b) anchor d = map_sum id (map_prod Html id) (mountBefore_html parse b anchor d)"
| "mountBefore_block parse (Text b) anchor d = map_sum id (map_prod Text id) (mountBefore_text b anchor d)"
| "mountBefore_block parse (Node b) anchor d = map_sum id (map_prod Node id) (mountBefore b anchor d)"
| "mountBefore_block parse (Multi b) anchor d = map_sum id (map_prod Multi id) (mountBefore_multi b anchor d)"
| "mountBefore_block parse (Collection cs a) anchor d =
     (case createTextNode [] d of
        (a', d1) \<Rightarrow>
          (case mountBefore_each parse cs a' (before anchor a' d1) of
             Inl err \<Rightarrow> Inl err
           | Inr (cs', d2) \<Rightarrow> Inr (Collection cs' (Some a'), d2)))"
| "mountBefore_each parse [] a d = Inr ([], d)"
| "mountBefore_each parse (None # cs) a d = Inl TypeError"
| "mountBefore_each parse (Some child # cs) a d =
     (case mountBefore_block parse child a d of
        Inl err \<Rightarrow> Inl err
      | Inr (child', d1) \<Rightarrow>
          (case mountBefore_each parse cs a d1 of
             Inl err \<Rightarrow> Inl err
           | Inr (cs', d2) \<Rightarrow> Inr (Some child' # cs', d2)))"

text \<open>\<^verbatim>\<open>BCollection.patch()\<close> is empty, and \<^verbatim>\<open>BCollection\<close> inherits the empty \<^verbatim>\<open>Block.remove\<close>.\<close>

subsection \<open>The slot transitions of the specification\<close>

text \<open>
  The specification words the reconciliation of one slot as a table over the old and the new
  child: both absent, nothing happens; old present and new absent, the old child is removed and
  the slot is nulled; old absent and new present, the new child is mounted before the slot's
  marker and installed; both present, the old child is patched with the new one and kept.
  \<open>slot_transition old new marker d\<close> is that table: the slot's new content and the store
  after it.
\<close>

fun slot_transition ::
  "bnode option \<Rightarrow> bnode option \<Rightarrow> nat option \<Rightarrow> dom \<Rightarrow> error + bnode option \<times> dom" where
  "slot_transition None None marker d = Inr (None, d)"
| "slot_transition (Some child) None marker d =
     (case remove_bnode child d of
        Inl err \<Rightarrow> Inl err
      | Inr (_, d1) \<Rightarrow> Inr (None, d1))"
| "slot_transition None (Some newChild) marker d =
     (case marker of
        None \<Rightarrow> Inl TypeError
      | Some a \<Rightarrow>
          (case mountBefore newChild a d of
             Inl err \<Rightarrow> Inl err
           | Inr (newChild', d1) \<Rightarrow> Inr (Some newChild', d1)))"
| "slot_transition (Some child) (Some newChild) marker d =
     (case patch child newChild d of
        Inl err \<Rightarrow> Inl err
      | Inr (child', d1) \<Rightarrow> Inr (Some child', d1))"

subsection \<open>Listeners and example inputs\<close>

text \<open>
  The listener that \<^verbatim>\<open>setupHandler(el, index)\<close> registers is the closure
  \<^verbatim>\<open>() => { this.handlers![index][1](); }\<close>.  \<open>listener this index\<close> is the thunk that closure
  calls when the event fires, read from the block as it is then.
\<close>

definition listener :: "bnode \<Rightarrow> nat \<Rightarrow> error + nat" where
  "listener this index =
     (case handlers this of
        None \<Rightarrow> Inl TypeError
      | Some hs \<Rightarrow> if index < length hs then Inr (snd (hs ! index)) else Inl TypeError)"

text \<open>
  Inputs for the examples: a parser for markup without tags, which is a single text leaf; the
  class of a block whose template is an empty paragraph; the class of a block whose template is
  a button and whose \<^verbatim>\<open>setupHandlers()\<close> calls \<^verbatim>\<open>this.setupHandler(this.el, 0)\<close>; and the class
  of a block whose template is a \<^verbatim>\<open>div\<close> around one placeholder.
\<close>

definition plain :: "string \<Rightarrow> tree list" where
  "plain m = [TText m]"

definition para :: node_class where
  "para = \<lparr>static_el = TElem ''p'' [] [], handler_sites = []\<rparr>"

definition button :: node_class where
  "button = \<lparr>static_el = TElem ''button'' [] [], handler_sites = [0]\<rparr>"

definition holder :: node_class where
  "holder = \<lparr>static_el = TElem ''div'' [] [TElem ''owl-anchor'' [] []], handler_sites = []\<rparr>"

section \<open>What the host operations change\<close>

text \<open>
  Each host operation is described by what a later read of a node's fields sees.
\<close>

lemmas dom_defs = upd_def alloc_def createTextNode_def createElement_def before_def appendChild_def
  remove_node_def insert_before_def replaceWith_def blank_def

lemma nodes_upd: "nodes (upd i f d) j = (if j = i then f (nodes d i) else nodes d j)"
  by (simp add: upd_def)

lemma next_id_upd: "next_id (upd i f d) = next_id d"
  by (simp add: upd_def)

lemma fst_alloc: "fst (alloc n d) = next_id d"
  by (simp add: alloc_def)

lemma nodes_alloc: "nodes (snd (alloc n d)) j = (if j = next_id d then n else nodes d j)"
  by (simp add: alloc_def)

lemma next_id_alloc: "next_id (snd (alloc n d)) = Suc (next_id d)"
  by (simp add: alloc_def)

lemma createTextNode_eq:
  "createTextNode s d = (next_id d, snd (createTextNode s d))"
  by (simp add: createTextNode_def alloc_def)

lemma nodes_createTextNode:
  "nodes (snd (createTextNode s d)) j
     = (if j = next_id d then blank\<lparr>textContent := s\<rparr> else nodes d j)"
  by (simp add: createTextNode_def alloc_def)

lemma next_id_createTextNode: "next_id (snd (createTextNode s d)) = Suc (next_id d)"
  by (simp add: createTextNode_def alloc_def)

lemma next_id_remove_node: "next_id (remove_node n d) = next_id d"
  by (simp add: remove_node_def next_id_upd split: option.splits)

lemma tag_remove_node: "tag (nodes (remove_node n d) x) = tag (nodes d x)"
  by (simp add: remove_node_def nodes_upd split: option.splits)

lemma textContent_remove_node: "textContent (nodes (remove_node n d) x) = textContent (nodes d x)"
  by (simp add: remove_node_def nodes_upd split: option.splits)

lemma listeners_remove_node: "listeners (nodes (remove_node n d) x) = listeners (nodes d x)"
  by (simp add: remove_node_def nodes_upd split: option.splits)

lemma parent_remove_node:
  "parent (nodes (remove_node n d) x) = (if x = n then None else parent (nodes d x))"
  by (simp add: remove_node_def nodes_upd split: option.splits)

lemma childNodes_remove_node:
  "childNodes (nodes (remove_node n d) x)
     = (if parent (nodes d n) = Some x then removeAll n (childNodes (nodes d x))
        else childNodes (nodes d x))"
  by (simp add: remove_node_def nodes_upd split: option.splits)

lemma next_id_before: "next_id (before a n d) = next_id d"
  by (simp add: before_def next_id_upd next_id_remove_node split: option.splits)

lemma tag_before: "tag (nodes (before a n d) x) = tag (nodes d x)"
  by (simp add: before_def nodes_upd tag_remove_node split: option.splits)

lemma textContent_before: "textContent (nodes (before a n d) x) = textContent (nodes d x)"
  by (simp add: before_def nodes_upd textContent_remove_node split: option.splits)

lemma listeners_before: "listeners (nodes (before a n d) x) = listeners (nodes d x)"
  by (simp add: before_def nodes_upd listeners_remove_node split: option.splits)

lemma parent_before:
  "parent (nodes (before a n d) x)
     = (case parent (nodes d a) of
          None \<Rightarrow> parent (nodes d x)
        | Some p \<Rightarrow> if x = n \<and> n \<noteq> a then Some p else parent (nodes d x))"
  by (simp add: before_def nodes_upd parent_remove_node split: option.splits)

lemma childNodes_before:
  "childNodes (nodes (before a n d) x)
     = (case parent (nodes d a) of
          None \<Rightarrow> childNodes (nodes d x)
        | Some p \<Rightarrow>
            if n = a then childNodes (nodes d x)
            else if x = p then insert_before a n (childNodes (nodes (remove_node n d) x))
            else childNodes (nodes (remove_node n d) x))"
  by (simp add: before_def nodes_upd split: option.splits)

section \<open>Running the blocks on a concrete store\<close>

text \<open>
  The equations below are the defining equations of the operations, instantiated to a store that
  is written out as a record.  Used as rewrite rules they run an operation only once the store
  it works on has been computed, which is the order in which the source runs.
\<close>

lemmas [simp del] = cloneNode.simps descendants.simps build_anchors.simps setupHandlers.simps
  mountBefore.simps mount_children.simps patch.simps patch_children.simps mountBefore_multi_loop.simps
  patch_multi_loop.simps remove_multi_loop.simps mountBefore_block.simps mountBefore_each.simps

lemmas host_ev =
  upd_def [of _ _ "\<lparr>nodes = F, next_id = k\<rparr>"]
  alloc_def [of _ "\<lparr>nodes = F, next_id = k\<rparr>"]
  createTextNode_def [of _ "\<lparr>nodes = F, next_id = k\<rparr>"]
  createElement_def [of _ "\<lparr>nodes = F, next_id = k\<rparr>"]
  remove_node_def [of _ "\<lparr>nodes = F, next_id = k\<rparr>"]
  before_def [of _ _ "\<lparr>nodes = F, next_id = k\<rparr>"]
  appendChild_def [of _ _ "\<lparr>nodes = F, next_id = k\<rparr>"]
  replaceWith_def [of _ _ "\<lparr>nodes = F, next_id = k\<rparr>"]
  addEventListener_def [of _ _ _ "\<lparr>nodes = F, next_id = k\<rparr>"]
  cloneNode.simps(1) [of _ _ "\<lparr>nodes = F, next_id = k\<rparr>"]
  cloneNode.simps(2) [of _ _ _ _ "\<lparr>nodes = F, next_id = k\<rparr>"]
  cloneNodes.simps(1) [of _ "\<lparr>nodes = F, next_id = k\<rparr>"]
  cloneNodes.simps(2) [of _ _ _ "\<lparr>nodes = F, next_id = k\<rparr>"]
  getElementsByTagName_def [of _ _ "\<lparr>nodes = F, next_id = k\<rparr>"]
  descendants.simps insert_before_def blank_def
  for F k

lemmas block_ev =
  mount_def [of _ _ _ "\<lparr>nodes = F, next_id = k\<rparr>"]
  BText_def [of _ "\<lparr>nodes = F, next_id = k\<rparr>"]
  mountBefore_text_def [of _ _ "\<lparr>nodes = F, next_id = k\<rparr>"]
  patch_text_def [of _ _ "\<lparr>nodes = F, next_id = k\<rparr>"]
  remove_text_def
  BHtml_def [of _ "\<lparr>nodes = F, next_id = k\<rparr>"]
  build_html_def [of _ _ "\<lparr>nodes = F, next_id = k\<rparr>"]
  mountBefore_html_def [of _ _ _ "\<lparr>nodes = F, next_id = k\<rparr>"]
  remove_html_def [of _ "\<lparr>nodes = F, next_id = k\<rparr>"]
  patch_html_def [of _ _ _ "\<lparr>nodes = F, next_id = k\<rparr>"]
  build_anchors.simps [of _ _ _ "\<lparr>nodes = F, next_id = k\<rparr>"]
  setupHandler_def [of _ _ _ "\<lparr>nodes = F, next_id = k\<rparr>"]
  setupHandlers.simps(1) [of _ _ "\<lparr>nodes = F, next_id = k\<rparr>"]
  setupHandlers.simps(2) [of _ _ _ _ "\<lparr>nodes = F, next_id = k\<rparr>"]
  build_def [of _ "\<lparr>nodes = F, next_id = k\<rparr>"]
  mountBefore.simps [of _ _ "\<lparr>nodes = F, next_id = k\<rparr>"]
  mount_children.simps [of _ _ _ "\<lparr>nodes = F, next_id = k\<rparr>"]
  remove_bnode_def [of _ "\<lparr>nodes = F, next_id = k\<rparr>"]
  patch.simps [of _ _ _ _ _ _ _ "\<lparr>nodes = F, next_id = k\<rparr>"]
  patch_children.simps [of _ _ _ _ "\<lparr>nodes = F, next_id = k\<rparr>"]
  mountBefore_multi_loop.simps [of _ _ _ "\<lparr>nodes = F, next_id = k\<rparr>"]
  mountBefore_multi_def
  patch_multi_loop.simps [of _ _ _ "\<lparr>nodes = F, next_id = k\<rparr>"]
  patch_multi_def
  remove_multi_loop.simps [of _ _ "\<lparr>nodes = F, next_id = k\<rparr>"]
  remove_multi_def
  mountBefore_block.simps(1) [of _ _ _ "\<lparr>nodes = F, next_id = k\<rparr>"]
  mountBefore_block.simps(2) [of _ _ _ "\<lparr>nodes = F, next_id = k\<rparr>"]
  mountBefore_block.simps(3) [of _ _ _ "\<lparr>nodes = F, next_id = k\<rparr>"]
  mountBefore_block.simps(4) [of _ _ _ "\<lparr>nodes = F, next_id = k\<rparr>"]
  mountBefore_block.simps(5) [of _ _ _ _ "\<lparr>nodes = F, next_id = k\<rparr>"]
  mountBefore_each.simps(1) [of _ _ "\<lparr>nodes = F, next_id = k\<rparr>"]
  mountBefore_each.simps(2) [of _ _ _ "\<lparr>nodes = F, next_id = k\<rparr>"]
  mountBefore_each.simps(3) [of _ _ _ _ "\<lparr>nodes = F, next_id = k\<rparr>"]
  BMulti_def BCollection_def js_nth_def js_set_def listener_def toString_html_def toString_text_def
  plain_def para_def button_def
  for F k

section \<open>Properties\<close>

subsection \<open>Text block\<close>

text \<open>
  Claim C9.  A Text block \<open>T\<close> constructed with the text \<open>s\<close> and mounted into an existing node
  \<open>par\<close> has a visual handle that is a Text node holding \<open>s\<close>, attached under \<open>par\<close>.  After a
  patch with any Text block \<open>T2\<close> constructed with the text \<open>s2\<close>, the block still has the same
  handle, the handle is still the same child of \<open>par\<close>, it holds \<open>s2\<close>, and the patch has created
  no node.
\<close>

theorem text_mount_then_patch:
  assumes "par < next_id d" and "BText s d = (T, d1)"
  shows "\<exists>d2. mount mountBefore_text T par d1 = Inr (T, d2)
           \<and> tag (nodes d2 (el_text T)) = None
           \<and> textContent (nodes d2 (el_text T)) = s
           \<and> parent (nodes d2 (el_text T)) = Some par
           \<and> el_text T \<in> set (childNodes (nodes d2 par))
           \<and> (\<forall>T2 d3. BText s2 d2 = (T2, d3) \<longrightarrow>
                 (\<exists>d4. patch_text T T2 d3 = Inr (T, d4)
                   \<and> tag (nodes d4 (el_text T)) = None
                   \<and> textContent (nodes d4 (el_text T)) = s2
                   \<and> parent (nodes d4 (el_text T)) = Some par
                   \<and> el_text T \<in> set (childNodes (nodes d4 par))
                   \<and> next_id d4 = next_id d3))"
proof -
  from assms(2) have T: "T = \<lparr>el_text = next_id d\<rparr>"
    and d1: "d1 = snd (createTextNode s d)"
    by (auto simp: BText_def createTextNode_def alloc_def)
  show ?thesis
    unfolding T d1 using assms(1)
    by (simp add: mount_def BText_def mountBefore_text_def patch_text_def dom_defs)
qed

theorem text_mount_then_patch_witness:
  "(0::nat) < next_id (snd (createElement ''div'' empty_dom))
   \<and> BText ''a'' (snd (createElement ''div'' empty_dom))
       = (\<lparr>el_text = 1\<rparr>, snd (BText ''a'' (snd (createElement ''div'' empty_dom))))
   \<and> (\<exists>d2. mount mountBefore_text \<lparr>el_text = 1\<rparr> 0 (snd (BText ''a'' (snd (createElement ''div'' empty_dom))))
              = Inr (\<lparr>el_text = 1\<rparr>, d2)
         \<and> textContent (nodes d2 1) = ''a''
         \<and> parent (nodes d2 1) = Some 0)"
proof -
  have h1: "(0::nat) < next_id (snd (createElement ''div'' empty_dom))"
    by (simp add: createElement_def alloc_def empty_dom_def)
  have h2: "BText ''a'' (snd (createElement ''div'' empty_dom))
       = (\<lparr>el_text = 1\<rparr>, snd (BText ''a'' (snd (createElement ''div'' empty_dom))))"
    by (simp add: BText_def createTextNode_def createElement_def alloc_def empty_dom_def)
  from text_mount_then_patch [OF h1 h2, of "''b''"] h1 h2 show ?thesis
    by auto
qed

text \<open>
  Claim C3.  \<^verbatim>\<open>BText\<close> inherits the empty \<^verbatim>\<open>Block.remove\<close>: after a Text block is mounted into a
  container and then removed, its text leaf is still the child of the container.
\<close>

theorem text_remove_keeps_leaf:
  "(case createElement ''div'' empty_dom of
      (par, d) \<Rightarrow>
        (case BText ''a'' d of
           (T, d1) \<Rightarrow>
             (case mount mountBefore_text T par d1 of
                Inl _ \<Rightarrow> False
              | Inr (T', d2) \<Rightarrow>
                  (case remove_text T' d2 of
                     Inl _ \<Rightarrow> False
                   | Inr (_, d3) \<Rightarrow>
                       parent (nodes d3 (el_text T')) = Some par
                       \<and> childNodes (nodes d3 par) = [el_text T']))))"
  by (simp add: empty_dom_def host_ev block_ev eval_nat_numeral cong: prod.case_cong_weak)

subsection \<open>Html block\<close>

text \<open>
  Claim C1.  An Html block built from the markup \<open>old\<close> is mounted into a container and patched
  with a successor built from the markup \<open>new\<close>.  The leaf the patch inserts before the block's
  marker holds \<open>old\<close>: the patch has parsed the block's own markup again, not the successor's.
\<close>

theorem html_patch_reparses_own_markup:
  "(case createElement ''div'' empty_dom of
      (par, d) \<Rightarrow>
        (case BHtml ''old'' d of
           (H, d1) \<Rightarrow>
             (case mount (mountBefore_html plain) H par d1 of
                Inl _ \<Rightarrow> False
              | Inr (H1, d2) \<Rightarrow>
                  (case BHtml ''new'' d2 of
                     (H2, d3) \<Rightarrow>
                       (case patch_html plain H1 H2 d3 of
                          Inl _ \<Rightarrow> False
                        | Inr (H3, d4) \<Rightarrow>
                            anchor_html H3 = anchor_html H1
                            \<and> content H1 \<noteq> content H3
                            \<and> map (\<lambda>n. textContent (nodes d4 n)) (content H3) = [''old'']
                            \<and> childNodes (nodes d4 par) = content H3 @ [anchor_html H3])))))"
  by (simp add: empty_dom_def host_ev block_ev eval_nat_numeral cong: prod.case_cong_weak)

text \<open>
  Claim C7.  After the same patch, serializing the block gives the markup \<open>old\<close> it was built
  from, and parsing that differs from parsing the successor's markup \<open>new\<close>.
\<close>

theorem html_patch_then_toString:
  "(case createElement ''div'' empty_dom of
      (par, d) \<Rightarrow>
        (case BHtml ''old'' d of
           (H, d1) \<Rightarrow>
             (case mount (mountBefore_html plain) H par d1 of
                Inl _ \<Rightarrow> False
              | Inr (H1, d2) \<Rightarrow>
                  (case BHtml ''new'' d2 of
                     (H2, d3) \<Rightarrow>
                       (case patch_html plain H1 H2 d3 of
                          Inl _ \<Rightarrow> False
                        | Inr (H3, d4) \<Rightarrow>
                            toString_html H2 = ''new''
                            \<and> toString_html H3 = ''old''
                            \<and> plain (toString_html H3) \<noteq> plain ''new'')))))"
  by (simp add: empty_dom_def host_ev block_ev eval_nat_numeral cong: prod.case_cong_weak)

subsection \<open>Multi block\<close>

text \<open>
  Claim C6.  A Multi block with two slots, the first holding a Node block and the second
  empty, is mounted into a container.  \<^verbatim>\<open>BMulti.remove\<close> then faults: at the empty slot it calls
  \<^verbatim>\<open>remove\<close> on \<^verbatim>\<open>undefined\<close>.
\<close>

theorem multi_remove_faults_on_absent_slot:
  "(case createElement ''div'' empty_dom of
      (par, d) \<Rightarrow>
        (case mount mountBefore_multi
                ((BMulti 2)\<lparr>children_multi := [Some (BNode para None None None None None), None]\<rparr>) par d of
           Inl _ \<Rightarrow> False
         | Inr (M, d1) \<Rightarrow>
             map (map_option el) (children_multi M) = [Some (Some 3), None]
             \<and> anchors_multi M = [Some 2, Some 4]
             \<and> childNodes (nodes d1 par) = [3, 2, 4]
             \<and> remove_multi M d1 = Inl TypeError))"
  by (simp add: empty_dom_def host_ev block_ev eval_nat_numeral cong: prod.case_cong_weak)

text \<open>
  Claim C2.  A Multi block with two slots, holding the Node blocks \<open>a\<close> and \<open>b\<close>, is mounted and
  then patched with a successor whose first slot holds \<open>c\<close> and whose second slot is empty.  The
  transition at index 1 is "old present, new absent".  After the patch slot 1 still holds \<open>b\<close>,
  whose element has left the container, and slot 0 is empty although its element is still in the
  container.
\<close>

theorem multi_patch_nulls_slot_zero:
  "(case createElement ''div'' empty_dom of
      (par, d) \<Rightarrow>
        (case mount mountBefore_multi
                ((BMulti 2)\<lparr>children_multi := [Some (BNode para None None None (Some [''a'']) None),
                                                 Some (BNode para None None None (Some [''b'']) None)]\<rparr>) par d of
           Inl _ \<Rightarrow> False
         | Inr (M, d1) \<Rightarrow>
             map (map_option data) (children_multi M) = [Some (Some [''a'']), Some (Some [''b''])]
             \<and> map (map_option el) (children_multi M) = [Some (Some 3), Some (Some 5)]
             \<and> childNodes (nodes d1 par) = [3, 2, 5, 4]
             \<and> (case patch_multi M
                       ((BMulti 2)\<lparr>children_multi := [Some (BNode para None None None (Some [''c'']) None), None]\<rparr>) d1 of
                   Inl _ \<Rightarrow> False
                 | Inr (M', d2) \<Rightarrow>
                     map (map_option data) (children_multi M') = [None, Some (Some [''b''])]
                     \<and> childNodes (nodes d2 par) = [3, 2, 4])))"
  by (simp add: empty_dom_def host_ev block_ev eval_nat_numeral cong: prod.case_cong_weak)

subsection \<open>Node block: handlers\<close>

text \<open>
  Claim C4.  A Node block whose class registers handler 0 is mounted with the handler
  \<open>(click, thunk 1)\<close> and patched with a successor carrying \<open>(click, thunk 2)\<close>.  The element has
  one listener before and after the patch, and after the patch that listener still calls
  thunk 1: \<^verbatim>\<open>BNode.patch\<close> takes over \<^verbatim>\<open>data\<close> from the successor, not \<^verbatim>\<open>handlers\<close>.
\<close>

theorem listener_calls_old_thunk_after_patch:
  "(case createElement ''div'' empty_dom of
      (par, d) \<Rightarrow>
        (case mount mountBefore (BNode button None None None None (Some [(''click'', 1)])) par d of
           Inl _ \<Rightarrow> False
         | Inr (B, d1) \<Rightarrow>
             el B = Some 2
             \<and> listeners (nodes d1 2) = [(''click'', 0)]
             \<and> listener B 0 = Inr 1
             \<and> (case patch B (BNode button None None None None (Some [(''click'', 2)])) d1 of
                   Inl _ \<Rightarrow> False
                 | Inr (B', d2) \<Rightarrow>
                     listeners (nodes d2 2) = [(''click'', 0)]
                     \<and> listener B' 0 = Inr 1)))"
  by (simp add: empty_dom_def host_ev block_ev eval_nat_numeral cong: prod.case_cong_weak)

subsection \<open>Collection block\<close>

text \<open>
  The loop of \<^verbatim>\<open>BCollection.mountBefore\<close> as a sequence of stores: it returns normally exactly
  when there are stores \<open>ds\<close>, one before each slot and one after the last, such that every slot
  holds a child whose own \<^verbatim>\<open>mountBefore\<close>, with the marker \<open>m\<close>, leads from one store to the next.
\<close>

lemma mountBefore_each_absent:
  "None \<in> set cs \<Longrightarrow> mountBefore_each parse cs m d = Inl TypeError"
  supply mountBefore_each.simps [simp]
proof (induction cs arbitrary: d)
  case Nil
  then show ?case by simp
next
  case (Cons x cs)
  show ?case
  proof (cases x)
    case None
    then show ?thesis by simp
  next
    case (Some child)
    with Cons.prems have "None \<in> set cs" by simp
    then have "\<And>d1. mountBefore_each parse cs m d1 = Inl TypeError"
      by (rule Cons.IH)
    then show ?thesis using Some
      by (cases "mountBefore_block parse child m d") (auto split: prod.splits intro: error.exhaust)
  qed
qed

lemma mountBefore_each_trace:
  "mountBefore_each parse cs m d = Inr (cs', d') \<longleftrightarrow>
     (\<exists>ds. length cs' = length cs \<and> length ds = Suc (length cs) \<and> ds ! 0 = d \<and> ds ! length cs = d'
        \<and> (\<forall>i<length cs. \<exists>c c'. cs ! i = Some c \<and> cs' ! i = Some c'
               \<and> mountBefore_block parse c m (ds ! i) = Inr (c', ds ! Suc i)))"
  (is "?L cs d cs' \<longleftrightarrow> ?R cs d cs'")
  supply mountBefore_each.simps [simp]
proof (induction cs arbitrary: d cs')
  case Nil
  show ?case
  proof
    assume "?L [] d cs'"
    then have "cs' = []" "d' = d" by simp_all
    then show "?R [] d cs'" by (intro exI[of _ "[d]"]) simp
  next
    assume "?R [] d cs'"
    then show "?L [] d cs'" by auto
  qed
next
  case (Cons x cs)
  show ?case
  proof
    assume L: "?L (x # cs) d cs'"
    then obtain child where x: "x = Some child" by (cases x) auto
    from L x obtain child' d1 where m1: "mountBefore_block parse child m d = Inr (child', d1)"
      by (cases "mountBefore_block parse child m d") auto
    from L x m1 obtain rest where r: "mountBefore_each parse cs m d1 = Inr (rest, d')" and cs': "cs' = Some child' # rest"
      by (cases "mountBefore_each parse cs m d1") auto
    from r Cons.IH[of d1 rest] obtain ds where ds: "length rest = length cs" "length ds = Suc (length cs)"
      "ds ! 0 = d1" "ds ! length cs = d'"
      "\<forall>i<length cs. \<exists>c c'. cs ! i = Some c \<and> rest ! i = Some c'
               \<and> mountBefore_block parse c m (ds ! i) = Inr (c', ds ! Suc i)"
      by blast
    show "?R (x # cs) d cs'"
    proof (intro exI[of _ "d # ds"] conjI allI impI)
      fix i assume "i < length (x # cs)"
      then show "\<exists>c c'. (x # cs) ! i = Some c \<and> cs' ! i = Some c'
               \<and> mountBefore_block parse c m ((d # ds) ! i) = Inr (c', (d # ds) ! Suc i)"
        using ds x m1 cs' by (cases i) auto
    qed (use ds cs' in auto)
  next
    assume R: "?R (x # cs) d cs'"
    then obtain ds where ds: "length cs' = Suc (length cs)" "length ds = Suc (Suc (length cs))"
      "ds ! 0 = d" "ds ! Suc (length cs) = d'"
      and steps: "\<forall>i<Suc (length cs). \<exists>c c'. (x # cs) ! i = Some c \<and> cs' ! i = Some c'
               \<and> mountBefore_block parse c m (ds ! i) = Inr (c', ds ! Suc i)"
      by auto
    from steps[rule_format, of 0] ds obtain child child' where
      x: "x = Some child" and c0: "cs' ! 0 = Some child'"
      and m1: "mountBefore_block parse child m d = Inr (child', ds ! Suc 0)"
      by auto
    from ds obtain rest where cs': "cs' = Some child' # rest" using c0 by (cases cs') auto
    have "?R cs (ds ! Suc 0) rest"
    proof (intro exI[of _ "tl ds"] conjI allI impI)
      fix i assume i: "i < length cs"
      from steps[rule_format, of "Suc i"] i cs' ds
      show "\<exists>c c'. cs ! i = Some c \<and> rest ! i = Some c'
               \<and> mountBefore_block parse c m (tl ds ! i) = Inr (c', tl ds ! Suc i)"
        by (simp add: nth_tl)
    qed (use ds cs' in \<open>auto simp: nth_tl\<close>)
    then have "mountBefore_each parse cs m (ds ! Suc 0) = Inr (rest, d')"
      using Cons.IH[of "ds ! Suc 0" rest] by blast
    then show "?L (x # cs) d cs'" using x m1 cs' by simp
  qed
qed

text \<open>
  Claim C10.  \<^verbatim>\<open>BCollection.mountBefore\<close> faults with a \<^verbatim>\<open>TypeError\<close> when a slot is empty.  It
  returns normally exactly when every slot holds a block and the blocks, mounted one after the
  other in index order before the marker the call has created, all return normally; the result
  stores that marker as the block's anchor.  The marker is a fresh empty Text node, and where the
  supplied marker has a parent, the fresh marker is placed under that parent directly before the
  supplied marker, before any child is mounted.
\<close>

theorem collection_mountBefore:
  "(None \<in> set cs \<longrightarrow> mountBefore_block parse (Collection cs a) anchor d = Inl TypeError)
   \<and> (\<forall>b' d'. mountBefore_block parse (Collection cs a) anchor d = Inr (b', d') \<longleftrightarrow>
         (\<exists>cs' ds. b' = Collection cs' (Some (next_id d))
            \<and> length cs' = length cs \<and> length ds = Suc (length cs)
            \<and> ds ! 0 = before anchor (next_id d) (snd (createTextNode [] d))
            \<and> ds ! length cs = d'
            \<and> (\<forall>i<length cs. \<exists>c c'. cs ! i = Some c \<and> cs' ! i = Some c'
                   \<and> mountBefore_block parse c (next_id d) (ds ! i) = Inr (c', ds ! Suc i))))
   \<and> tag (nodes (before anchor (next_id d) (snd (createTextNode [] d))) (next_id d)) = None
   \<and> textContent (nodes (before anchor (next_id d) (snd (createTextNode [] d))) (next_id d)) = []
   \<and> (\<forall>p. anchor < next_id d \<and> p < next_id d \<and> parent (nodes d anchor) = Some p \<longrightarrow>
         parent (nodes (before anchor (next_id d) (snd (createTextNode [] d))) (next_id d)) = Some p
         \<and> childNodes (nodes (before anchor (next_id d) (snd (createTextNode [] d))) p)
             = takeWhile (\<lambda>x. x \<noteq> anchor) (childNodes (nodes d p)) @ next_id d
                 # dropWhile (\<lambda>x. x \<noteq> anchor) (childNodes (nodes d p)))"
  supply mountBefore_block.simps [simp]
proof (intro conjI allI impI)
  assume "None \<in> set cs"
  then show "mountBefore_block parse (Collection cs a) anchor d = Inl TypeError"
    by (simp add: mountBefore_each_absent split: prod.splits)
next
  fix b' d'
  have m: "createTextNode [] d = (next_id d, snd (createTextNode [] d))"
    by (simp add: createTextNode_def alloc_def)
  show "mountBefore_block parse (Collection cs a) anchor d = Inr (b', d') \<longleftrightarrow>
         (\<exists>cs' ds. b' = Collection cs' (Some (next_id d))
            \<and> length cs' = length cs \<and> length ds = Suc (length cs)
            \<and> ds ! 0 = before anchor (next_id d) (snd (createTextNode [] d))
            \<and> ds ! length cs = d'
            \<and> (\<forall>i<length cs. \<exists>c c'. cs ! i = Some c \<and> cs' ! i = Some c'
                   \<and> mountBefore_block parse c (next_id d) (ds ! i) = Inr (c', ds ! Suc i)))"
    (is "?L \<longleftrightarrow> ?R")
  proof
    assume ?L
    then obtain cs' where e: "mountBefore_each parse cs (next_id d)
          (before anchor (next_id d) (snd (createTextNode [] d))) = Inr (cs', d')"
      and b': "b' = Collection cs' (Some (next_id d))"
      by (subst (asm) mountBefore_block.simps, subst (asm) m) (auto split: sum.splits)
    from e[unfolded mountBefore_each_trace] b' show ?R by blast
  next
    assume ?R
    then obtain cs' where b': "b' = Collection cs' (Some (next_id d))"
      and "mountBefore_each parse cs (next_id d)
          (before anchor (next_id d) (snd (createTextNode [] d))) = Inr (cs', d')"
      unfolding mountBefore_each_trace by blast
    then show ?L
      by (subst mountBefore_block.simps, subst m) simp
  qed
qed (auto simp: tag_before textContent_before parent_before childNodes_before childNodes_remove_node
    nodes_createTextNode insert_before_def blank_def)


theorem collection_mountBefore_witness:
  "None \<in> set [None :: block option]
   \<and> mountBefore_block plain (Collection [None] None) 0 empty_dom = Inl TypeError
   \<and> (case createElement ''div'' empty_dom of
         (par, d) \<Rightarrow>
           (case BText ''a'' d of
              (T, d1) \<Rightarrow>
                (case BHtml ''b'' d1 of
                   (H, d2) \<Rightarrow>
                     (case mount (mountBefore_block plain)
                             (Collection [Some (Text T), Some (Node (BNode para None None None None None)),
                                          Some (Html H)] None) par d2 of
                        Inl _ \<Rightarrow> False
                      | Inr (C, d3) \<Rightarrow>
                          anchor_coll C = Some 4
                          \<and> childNodes (nodes d3 par) = [el_text T, 5, 7, anchor_html H, 4]))))"
proof -
  have absent: "mountBefore_block plain (Collection [None] None) 0 empty_dom = Inl TypeError"
    using collection_mountBefore [of "[None]" plain None 0 empty_dom] by simp
  have present: "(case createElement ''div'' empty_dom of
         (par, d) \<Rightarrow>
           (case BText ''a'' d of
              (T, d1) \<Rightarrow>
                (case BHtml ''b'' d1 of
                   (H, d2) \<Rightarrow>
                     (case mount (mountBefore_block plain)
                             (Collection [Some (Text T), Some (Node (BNode para None None None None None)),
                                          Some (Html H)] None) par d2 of
                        Inl _ \<Rightarrow> False
                      | Inr (C, d3) \<Rightarrow>
                          anchor_coll C = Some 4
                          \<and> childNodes (nodes d3 par) = [el_text T, 5, 7, anchor_html H, 4]))))"
    by (simp add: empty_dom_def host_ev block_ev eval_nat_numeral cong: prod.case_cong_weak)
  show ?thesis
    by (intro conjI absent present) simp
qed

subsection \<open>Node block: the slots under a patch\<close>

text \<open>
  One turn of the loop of \<^verbatim>\<open>BNode.patch\<close> is the transition of the slot it is at, and leaves the
  other slots alone.  Hence the loop returns normally exactly when there is a sequence of
  stores, one before each slot and one after the last, along which every slot makes its
  transition.
\<close>

lemma patch_children_done:
  "\<not> i < length ns \<Longrightarrow> patch_children i cs ns an d = Inr (cs, d)"
  by (subst patch_children.simps) simp

lemma patch_children_step:
  assumes "i < length ns" "i < length cs" "i < length as"
  shows "patch_children i cs ns (Some as) d =
           (case slot_transition (cs ! i) (ns ! i) (as ! i) d of
              Inl err \<Rightarrow> Inl err
            | Inr (v, d1) \<Rightarrow> patch_children (Suc i) (cs[i := v]) ns (Some as) d1)"
proof (cases "cs ! i")
  case None
  then have same: "cs[i := None] = cs" by (metis list_update_id)
  show ?thesis
    using assms None same
    by (subst patch_children.simps)
       (auto simp: js_nth_def js_set_def split: option.splits sum.splits)
next
  case (Some child)
  show ?thesis
    using assms Some
    by (subst patch_children.simps)
       (auto simp: js_nth_def js_set_def split: option.splits sum.splits)
qed

lemma patch_children_trace:
  assumes "length ns = length cs" "length as = length cs" "i \<le> length cs"
  shows "patch_children i cs ns (Some as) d = Inr (cs', d') \<longleftrightarrow>
     (\<exists>ds. length cs' = length cs \<and> length ds = Suc (length cs) \<and> ds ! i = d \<and> ds ! length cs = d'
        \<and> (\<forall>j<i. cs' ! j = cs ! j)
        \<and> (\<forall>j. i \<le> j \<and> j < length cs \<longrightarrow>
              slot_transition (cs ! j) (ns ! j) (as ! j) (ds ! j) = Inr (cs' ! j, ds ! Suc j)))"
  (is "?L i cs d \<longleftrightarrow> ?R i cs d")
  using assms
proof (induction "length cs - i" arbitrary: i cs d)
  case 0
  then have i: "i = length cs" by simp
  with 0 have fin: "patch_children i cs ns (Some as) d = Inr (cs, d)"
    by (simp add: patch_children_done)
  show ?case
  proof
    assume "?L i cs d"
    with fin have "cs' = cs" "d' = d" by simp_all
    then show "?R i cs d"
      using i by (intro exI[of _ "replicate (Suc (length cs)) d"]) (auto simp del: replicate_Suc)
  next
    assume "?R i cs d"
    then have "length cs' = length cs" "\<forall>j<length cs. cs' ! j = cs ! j" "d' = d"
      using i by auto
    then have "cs' = cs" "d' = d" by (simp_all add: list_eq_iff_nth_eq)
    with fin show "?L i cs d" by simp
  qed
next
  case (Suc k)
  then have i: "i < length cs" "i < length ns" "i < length as" by simp_all
  note step = patch_children_step[OF i(2) i(1) i(3), of d]
  have IH: "\<And>v d1. patch_children (Suc i) (cs[i := v]) ns (Some as) d1 = Inr (cs', d')
            \<longleftrightarrow> ?R (Suc i) (cs[i := v]) d1"
    using Suc by (intro Suc.hyps(1)) simp_all
  show ?case
  proof
    assume L: "?L i cs d"
    then obtain v d1 where st: "slot_transition (cs ! i) (ns ! i) (as ! i) d = Inr (v, d1)"
      and rest: "patch_children (Suc i) (cs[i := v]) ns (Some as) d1 = Inr (cs', d')"
      unfolding step by (auto split: sum.splits)
    from rest IH obtain ds where ds: "length cs' = length cs" "length ds = Suc (length cs)"
      "ds ! Suc i = d1" "ds ! length cs = d'"
      "\<forall>j<Suc i. cs' ! j = cs[i := v] ! j"
      "\<forall>j. Suc i \<le> j \<and> j < length cs \<longrightarrow>
          slot_transition (cs[i := v] ! j) (ns ! j) (as ! j) (ds ! j) = Inr (cs' ! j, ds ! Suc j)"
      by auto
    from ds(5) i have v: "cs' ! i = v" by simp
    show "?R i cs d"
    proof (intro exI[of _ "ds[i := d]"] conjI allI impI)
      fix j assume j: "i \<le> j \<and> j < length cs"
      show "slot_transition (cs ! j) (ns ! j) (as ! j) (ds[i := d] ! j)
              = Inr (cs' ! j, ds[i := d] ! Suc j)"
      proof (cases "j = i")
        case True
        then show ?thesis using st v ds i by simp
      next
        case False
        with j have "Suc i \<le> j \<and> j < length cs" by simp
        with ds(6) False j show ?thesis by simp
      qed
    next
      fix j assume "j < i"
      with ds(5) show "cs' ! j = cs ! j" by simp
    qed (use ds i in auto)
  next
    assume R: "?R i cs d"
    then obtain ds where ds: "length cs' = length cs" "length ds = Suc (length cs)"
      "ds ! i = d" "ds ! length cs = d'" "\<forall>j<i. cs' ! j = cs ! j"
      "\<forall>j. i \<le> j \<and> j < length cs \<longrightarrow>
          slot_transition (cs ! j) (ns ! j) (as ! j) (ds ! j) = Inr (cs' ! j, ds ! Suc j)"
      by auto
    from ds(6) i ds(3) have st: "slot_transition (cs ! i) (ns ! i) (as ! i) d = Inr (cs' ! i, ds ! Suc i)"
      by auto
    have "?R (Suc i) (cs[i := cs' ! i]) (ds ! Suc i)"
    proof (intro exI[of _ ds] conjI allI impI)
      fix j assume "j < Suc i"
      then show "cs' ! j = cs[i := cs' ! i] ! j"
        using ds(5) i by (cases "j = i") auto
    next
      fix j assume "Suc i \<le> j \<and> j < length (cs[i := cs' ! i])"
      then show "slot_transition (cs[i := cs' ! i] ! j) (ns ! j) (as ! j) (ds ! j)
                   = Inr (cs' ! j, ds ! Suc j)"
        using ds(6) by simp
    qed (use ds in auto)
    then have "patch_children (Suc i) (cs[i := cs' ! i]) ns (Some as) (ds ! Suc i) = Inr (cs', d')"
      using IH by blast
    then show "?L i cs d" unfolding step using st by simp
  qed
qed

text \<open>
  Claim C5.  Let a Node block have as many markers as slots, and let the successor have the same
  number of slots.  Then \<^verbatim>\<open>patch\<close> returns normally exactly when the slots, taken in index order,
  each make the transition of the specification's table for their old child, new child and
  marker; the block then holds the slots' new contents and the successor's data, and keeps its
  element, markers, class and handlers.  In the transition that removes the old child the slot
  becomes empty and the slot's marker keeps its parent and its place among its parent's
  children (the child's element being a node other than the marker).
\<close>

theorem node_patch_slot_transitions:
  assumes "children this = Some cs" and "anchors this = Some as" and "children newTree = Some ns"
    and "length ns = length cs" and "length as = length cs"
  shows "(patch this newTree d = Inr (this', d') \<longleftrightarrow>
           (\<exists>cs' ds. this' = BNode (cls this) (el this) (Some cs') (anchors this) (data newTree) (handlers this)
              \<and> length cs' = length cs \<and> length ds = Suc (length cs)
              \<and> ds ! 0 = d \<and> ds ! length cs = d'
              \<and> (\<forall>i<length cs.
                    slot_transition (cs ! i) (ns ! i) (as ! i) (ds ! i) = Inr (cs' ! i, ds ! Suc i))))
         \<and> (\<forall>child m d0 v d1.
               slot_transition (Some child) None (Some m) d0 = Inr (v, d1) \<and> el child \<noteq> Some m \<longrightarrow>
                 v = None
                 \<and> parent (nodes d1 m) = parent (nodes d0 m)
                 \<and> (\<forall>p. (m \<in> set (childNodes (nodes d1 p))) = (m \<in> set (childNodes (nodes d0 p)))))"
proof (intro conjI allI impI)
  obtain c e da ha where shape: "this = BNode c e (Some cs) (Some as) da ha"
    using assms(1,2) by (cases this) auto
  have unfold: "patch this newTree d =
      (case patch_children 0 cs ns (Some as) d of
         Inl err \<Rightarrow> Inl err
       | Inr (cs', d1) \<Rightarrow> Inr (BNode c e (Some cs') (Some as) (data newTree) ha, d1))"
    unfolding shape using assms(3) by (subst patch.simps) simp
  show "patch this newTree d = Inr (this', d') \<longleftrightarrow>
           (\<exists>cs' ds. this' = BNode (cls this) (el this) (Some cs') (anchors this) (data newTree) (handlers this)
              \<and> length cs' = length cs \<and> length ds = Suc (length cs)
              \<and> ds ! 0 = d \<and> ds ! length cs = d'
              \<and> (\<forall>i<length cs.
                    slot_transition (cs ! i) (ns ! i) (as ! i) (ds ! i) = Inr (cs' ! i, ds ! Suc i)))"
    (is "?L \<longleftrightarrow> ?R")
  proof
    assume ?L
    then obtain cs' where pc: "patch_children 0 cs ns (Some as) d = Inr (cs', d')"
      and t': "this' = BNode c e (Some cs') (Some as) (data newTree) ha"
      unfolding unfold by (auto split: sum.splits)
    from pc[unfolded patch_children_trace[OF assms(4,5) le0]] t' show ?R
      unfolding shape by auto
  next
    assume ?R
    then obtain cs' ds where t': "this' = BNode c e (Some cs') (Some as) (data newTree) ha"
      and tr: "length cs' = length cs" "length ds = Suc (length cs)" "ds ! 0 = d" "ds ! length cs = d'"
        "\<forall>i<length cs. slot_transition (cs ! i) (ns ! i) (as ! i) (ds ! i) = Inr (cs' ! i, ds ! Suc i)"
      unfolding shape by auto
    have "patch_children 0 cs ns (Some as) d = Inr (cs', d')"
      unfolding patch_children_trace[OF assms(4,5) le0] using tr by (intro exI[of _ ds]) auto
    then show ?L unfolding unfold using t' by simp
  qed
next
  fix child m d0 v d1
  assume a: "slot_transition (Some child) None (Some m) d0 = Inr (v, d1) \<and> el child \<noteq> Some m"
  then obtain root where root: "el child = Some root" "root \<noteq> m"
    and d1: "d1 = remove_node root d0" and v: "v = None"
    by (auto simp: remove_bnode_def split: option.splits)
  show "v = None" by (rule v)
  show "parent (nodes d1 m) = parent (nodes d0 m)"
    using root by (simp add: d1 parent_remove_node)
  fix p
  show "(m \<in> set (childNodes (nodes d1 p))) = (m \<in> set (childNodes (nodes d0 p)))"
    using root by (simp add: d1 childNodes_remove_node)
qed

theorem node_patch_slot_transitions_witness:
  "\<exists>B d1 c m B2 d2.
      mount mountBefore
        (BNode holder None (Some [Some (BNode para None None None None None)]) None None None)
        0 (snd (createElement ''div'' empty_dom)) = Inr (B, d1)
      \<and> children B = Some [Some c] \<and> el c = Some 5 \<and> anchors B = Some [Some m] \<and> m = 4
      \<and> children (BNode holder None (Some [None]) None (Some [''v'']) None) = Some [None]
      \<and> patch B (BNode holder None (Some [None]) None (Some [''v'']) None) d1 = Inr (B2, d2)
      \<and> children B2 = Some [None] \<and> data B2 = Some [''v'']
      \<and> slot_transition (Some c) None (Some m) d1 = Inr (None, d2)
      \<and> parent (nodes d2 m) = parent (nodes d1 m)
      \<and> parent (nodes d2 m) = el B
      \<and> childNodes (nodes d1 2) = [5, m]
      \<and> childNodes (nodes d2 2) = [m]
      \<and> parent (nodes d2 5) = None"
proof -
  define N where "N = BNode holder None (Some [None]) None (Some [''v'']) None"
  have ev: "\<exists>B d1 c B2 d2.
      mount mountBefore
        (BNode holder None (Some [Some (BNode para None None None None None)]) None None None)
        0 (snd (createElement ''div'' empty_dom)) = Inr (B, d1)
      \<and> children B = Some [Some c] \<and> el c = Some 5 \<and> anchors B = Some [Some 4]
      \<and> patch B N d1 = Inr (B2, d2)
      \<and> parent (nodes d2 4) = el B
      \<and> childNodes (nodes d1 2) = [5, 4]
      \<and> childNodes (nodes d2 2) = [4]
      \<and> parent (nodes d2 5) = None"
    unfolding N_def
    by (simp add: empty_dom_def host_ev block_ev holder_def eval_nat_numeral cong: prod.case_cong_weak)
  then obtain B d1 c B2 d2 where
    m: "mount mountBefore
        (BNode holder None (Some [Some (BNode para None None None None None)]) None None None)
        0 (snd (createElement ''div'' empty_dom)) = Inr (B, d1)"
    and B: "children B = Some [Some c]" "el c = Some 5" "anchors B = Some [Some 4]"
    and p: "patch B N d1 = Inr (B2, d2)"
    and rest: "parent (nodes d2 4) = el B" "childNodes (nodes d1 2) = [5, 4]"
      "childNodes (nodes d2 2) = [4]" "parent (nodes d2 5) = None"
    by blast
  have N: "children N = Some [None]" by (simp add: N_def)
  have l1: "length [None :: bnode option] = length [Some c]"
    and l2: "length [Some (4::nat)] = length [Some c]" by simp_all
  note T = node_patch_slot_transitions [OF B(1) B(3) N l1 l2, of d1 B2 d2]
  from T[THEN conjunct1, THEN iffD1, OF p] obtain cs' ds where
    B2: "B2 = BNode (cls B) (el B) (Some cs') (anchors B) (data N) (handlers B)"
    and tr: "length cs' = length [Some c]" "ds ! 0 = d1" "ds ! length [Some c] = d2"
      "\<forall>i<length [Some c]. slot_transition ([Some c] ! i) ([None] ! i) ([Some 4] ! i) (ds ! i)
          = Inr (cs' ! i, ds ! Suc i)"
    by blast
  from tr(4)[rule_format, of 0] tr(2,3)
  have st: "slot_transition (Some c) None (Some 4) d1 = Inr (cs' ! 0, d2)"
    by (simp del: slot_transition.simps)
  have "el c \<noteq> Some 4" using B(2) by simp
  with T[THEN conjunct2, rule_format, of c 4 d1 "cs' ! 0" d2] st
  have keep: "cs' ! 0 = None" "parent (nodes d2 4) = parent (nodes d1 4)"
    by (simp_all del: slot_transition.simps)
  from tr(1) keep(1) have cs': "cs' = [None]" by (cases cs') auto
  show ?thesis
    using m B p[unfolded N_def] rest st[unfolded keep(1)] keep(2) N[unfolded N_def] B2 cs'
    by (intro exI[of _ B] exI[of _ d1] exI[of _ c] exI[of _ 4] exI[of _ B2] exI[of _ d2])
       (simp add: N_def del: slot_transition.simps)
qed

end
